theory Spec2Isabelle
  imports Complex_Main "HOL-Library.Multiset" "HOL-Library.AList"
begin

section \<open>JavaScript numbers\<close>

text \<open>
  A JavaScript number is a double: a finite value, one of the two infinities, or NaN.
  Finite values are modelled as exact reals, so the rounding of double arithmetic is
  outside the model; the special values are kept, since the code tests for them with
  \<^verbatim>\<open>Number.isFinite\<close>.
\<close>

datatype jsnum = Num real | PosInf | NegInf | NaN

definition isFinite :: "jsnum \<Rightarrow> bool" where
  "isFinite v = (case v of Num _ \<Rightarrow> True | _ \<Rightarrow> False)"

text \<open>
  The operations on numbers that the animation code uses: \<^verbatim>\<open>+\<close>, \<^verbatim>\<open>*\<close>, \<^verbatim>\<open><\<close>,
  \<^verbatim>\<open>>=\<close> (written here as \<open>js_le\<close> with the operands swapped) and \<^verbatim>\<open>Math.min\<close>,
  with the behaviour of IEEE 754 on the special values: every comparison with NaN is
  false, and NaN spreads through arithmetic and \<^verbatim>\<open>Math.min\<close>.
\<close>

fun js_add :: "jsnum \<Rightarrow> jsnum \<Rightarrow> jsnum" where
  "js_add (Num a) (Num b) = Num (a + b)"
| "js_add NaN _ = NaN"
| "js_add _ NaN = NaN"
| "js_add PosInf NegInf = NaN"
| "js_add NegInf PosInf = NaN"
| "js_add PosInf _ = PosInf"
| "js_add _ PosInf = PosInf"
| "js_add NegInf _ = NegInf"
| "js_add _ NegInf = NegInf"


fun js_less :: "jsnum \<Rightarrow> jsnum \<Rightarrow> bool" where
  "js_less (Num a) (Num b) = (a < b)"
| "js_less NaN _ = False"
| "js_less _ NaN = False"
| "js_less _ NegInf = False"
| "js_less PosInf _ = False"
| "js_less NegInf _ = True"
| "js_less _ PosInf = True"

fun js_le :: "jsnum \<Rightarrow> jsnum \<Rightarrow> bool" where
  "js_le (Num a) (Num b) = (a \<le> b)"
| "js_le NaN _ = False"
| "js_le _ NaN = False"
| "js_le NegInf _ = True"
| "js_le _ PosInf = True"
| "js_le _ NegInf = False"
| "js_le PosInf _ = False"

fun Math_min :: "jsnum \<Rightarrow> jsnum \<Rightarrow> jsnum" where
  "Math_min (Num a) (Num b) = Num (min a b)"
| "Math_min NaN _ = NaN"
| "Math_min _ NaN = NaN"
| "Math_min NegInf _ = NegInf"
| "Math_min _ NegInf = NegInf"
| "Math_min PosInf b = b"
| "Math_min a PosInf = a"

section \<open>Animated value engine\<close>


text \<open>
  \<^verbatim>\<open>
  class AnimatedNumber {
    constructor(el, formatter) {
      this.el = el;
      this.formatter = formatter;
      this.value = 0;
      this.rate = 0;
      this.limit = Infinity;
      this.lastText = '';
    }
  \<close>
  The field \<^verbatim>\<open>value\<close> is called \<open>val\<close> here, and \<open>textContent\<close> is the text of the
  element \<^verbatim>\<open>el\<close>.
\<close>

record AnimatedNumber =
  textContent :: string
  formatter :: "jsnum \<Rightarrow> string"
  val :: jsnum
  rate :: jsnum
  limit :: jsnum
  lastText :: string


text \<open>
  \<^verbatim>\<open>
  render() {
    const text = this.formatter(this.value);
    if (text !== this.lastText) {
      this.el.textContent = text;
      this.lastText = text;
    }
  }
  \<close>
\<close>

definition render :: "AnimatedNumber \<Rightarrow> AnimatedNumber" where
  "render c =
     (let text = formatter c (val c)
      in if text \<noteq> lastText c then c\<lparr>textContent := text, lastText := text\<rparr> else c)"

text \<open>
  \<^verbatim>\<open>
  update({ value, rate, limit }) {
    if (!Number.isFinite(value)) { value = 0; }
    this.limit = Number.isFinite(limit) ? limit : Infinity;
    this.value = Math.min(value, this.limit);
    this.rate = Number.isFinite(rate) ? rate : 0;
    this.render();
    scheduleAnimation();
  }
  \<close>
  \<^verbatim>\<open>scheduleAnimation\<close> only requests an animation frame; it does not touch the counter.
\<close>

definition update :: "AnimatedNumber \<Rightarrow> jsnum \<Rightarrow> jsnum \<Rightarrow> jsnum \<Rightarrow> AnimatedNumber" where
  "update c v rt lmt =
     (let v1 = (if \<not> isFinite v then Num 0 else v);
          c1 = c\<lparr>limit := (if isFinite lmt then lmt else PosInf)\<rparr>;
          c2 = c1\<lparr>val := Math_min v1 (limit c1)\<rparr>;
          c3 = c2\<lparr>rate := (if isFinite rt then rt else Num 0)\<rparr>
      in render c3)"












section \<open>Time-context model\<close>

text \<open>
  The remaining operations on numbers that the time context uses: \<^verbatim>\<open>-\<close>, \<^verbatim>\<open>/\<close> and
  \<^verbatim>\<open>Math.max\<close>. Zero is the positive zero; the negative zero of IEEE 754 is not
  modelled.
\<close>

fun js_neg :: "jsnum \<Rightarrow> jsnum" where
  "js_neg (Num a) = Num (- a)"
| "js_neg PosInf = NegInf"
| "js_neg NegInf = PosInf"
| "js_neg NaN = NaN"

definition js_sub :: "jsnum \<Rightarrow> jsnum \<Rightarrow> jsnum" where
  "js_sub a b = js_add a (js_neg b)"

fun js_div :: "jsnum \<Rightarrow> jsnum \<Rightarrow> jsnum" where
  "js_div (Num a) (Num b) =
     (if b = 0 then (if a = 0 then NaN else if 0 < a then PosInf else NegInf)
      else Num (a / b))"
| "js_div NaN _ = NaN"
| "js_div _ NaN = NaN"
| "js_div (Num a) _ = Num 0"
| "js_div PosInf (Num b) = (if b < 0 then NegInf else PosInf)"
| "js_div NegInf (Num b) = (if b < 0 then PosInf else NegInf)"
| "js_div _ _ = NaN"

fun Math_max2 :: "jsnum \<Rightarrow> jsnum \<Rightarrow> jsnum" where
  "Math_max2 (Num a) (Num b) = Num (max a b)"
| "Math_max2 NaN _ = NaN"
| "Math_max2 _ NaN = NaN"
| "Math_max2 PosInf _ = PosInf"
| "Math_max2 _ PosInf = PosInf"
| "Math_max2 NegInf b = b"
| "Math_max2 a NegInf = a"

text \<open>
  \<^verbatim>\<open>Date.UTC(year, 0, 1, 0, 0, 0)\<close>, after ECMA-262: the year goes through
  \<^verbatim>\<open>MakeFullYear\<close>, which maps 0..99 to 1900..1999; the day number of the first of
  January is \<^verbatim>\<open>DayFromYear\<close>; the time value is that day times the milliseconds of a
  day; and \<^verbatim>\<open>TimeClip\<close> gives NaN beyond 8.64e15 milliseconds from the epoch.
\<close>

definition MakeFullYear :: "int \<Rightarrow> int" where
  "MakeFullYear y = (if 0 \<le> y \<and> y \<le> 99 then 1900 + y else y)"

definition DayFromYear :: "int \<Rightarrow> int" where
  "DayFromYear y =
     365 * (y - 1970) + (y - 1969) div 4 - (y - 1901) div 100 + (y - 1601) div 400"

definition msPerDay :: int where
  "msPerDay = 86400000"

definition TimeClip :: "int \<Rightarrow> jsnum" where
  "TimeClip t = (if \<bar>t\<bar> > 8640000000000000 then NaN else Num (of_int t))"

definition Date_UTC :: "int \<Rightarrow> jsnum" where
  "Date_UTC year = TimeClip (msPerDay * DayFromYear (MakeFullYear year))"

text \<open>
  \<^verbatim>\<open>
  function computeTimeContext(year) {
    const start = Date.UTC(year, 0, 1, 0, 0, 0);
    const end = Date.UTC(year + 1, 0, 1, 0, 0, 0);
    const yearSeconds = (end - start) / 1000;
    const now = Date.now();
    let elapsedSeconds = yearSeconds;
    const currentYear = new Date().getFullYear();
    if (year === currentYear) {
      elapsedSeconds = Math.max(0, Math.min(yearSeconds, (now - start) / 1000));
    } else if (year > currentYear) {
      elapsedSeconds = 0;
    }
    return { yearSeconds, elapsedSeconds,
             isCurrent: year === currentYear && elapsedSeconds < yearSeconds };
  }
  \<close>
  The two readings of the clock are inputs: \<open>now\<close> is \<^verbatim>\<open>Date.now()\<close>, in
  milliseconds, and \<open>currentYear\<close> is \<^verbatim>\<open>new Date().getFullYear()\<close>, the calendar year
  of the browser's local time.
\<close>

record TimeContext =
  yearSeconds :: jsnum
  elapsedSeconds :: jsnum
  isCurrent :: bool

definition computeTimeContext :: "int \<Rightarrow> int \<Rightarrow> int \<Rightarrow> TimeContext" where
  "computeTimeContext year now currentYear =
     (let start = Date_UTC year;
          finish = Date_UTC (year + 1);
          yearSecs = js_div (js_sub finish start) (Num 1000);
          elapsed =
            (if year = currentYear
             then Math_max2 (Num 0)
                    (Math_min yearSecs (js_div (js_sub (Num (of_int now)) start) (Num 1000)))
             else if year > currentYear then Num 0
             else yearSecs)
      in \<lparr> yearSeconds = yearSecs, elapsedSeconds = elapsed,
           isCurrent = (year = currentYear \<and> js_less elapsed yearSecs) \<rparr>)"

text \<open>
  The years at which \<^verbatim>\<open>Date.UTC\<close> is a number for the year and for the next one, the
  seconds between the two dates, the seconds from the first of them to \<open>now\<close>, and the
  leap years of the Gregorian calendar.
\<close>

definition date_range :: "int \<Rightarrow> bool" where
  "date_range year \<longleftrightarrow> - 271820 \<le> year \<and> year \<le> 275759"

definition seconds_in_year :: "int \<Rightarrow> real" where
  "seconds_in_year year =
     86400 * of_int (DayFromYear (MakeFullYear (year + 1)) - DayFromYear (MakeFullYear year))"

definition seconds_since_start :: "int \<Rightarrow> int \<Rightarrow> real" where
  "seconds_since_start year now =
     (of_int now - of_int (msPerDay * DayFromYear (MakeFullYear year))) / 1000"

definition leap :: "int \<Rightarrow> bool" where
  "leap y \<longleftrightarrow> (y mod 4 = 0 \<and> y mod 100 \<noteq> 0) \<or> y mod 400 = 0"

section \<open>Scatter projection: nice numbers\<close>




section \<open>Records of a dataset\<close>

text \<open>
  One row of a year's dataset, with the field names of the JSON files. \<open>claims\<close>,
  \<open>beneficiaries\<close>, \<open>prev_spend_total_usd\<close> and \<open>prev_year\<close> may be \<^verbatim>\<open>null\<close>
  (\<open>None\<close>); \<open>spend_total_usd\<close> is a finite number.
\<close>

record row =
  part :: string
  display_name :: string
  is_glp1 :: bool
  claims :: "real option"
  beneficiaries :: "real option"
  spend_total_usd :: real
  prev_spend_total_usd :: "real option"
  prev_year :: "int option"

section \<open>Aggregation and ranking: movers\<close>

text \<open>
  \<^verbatim>\<open>x || 0\<close> on a number: 0 is falsy, every other finite number is itself.
\<close>

definition orZero :: "real \<Rightarrow> real" where
  "orZero x = (if x = 0 then 0 else x)"

text \<open>
  \<^verbatim>\<open>xs.sort((a, b) => key(b) - key(a))\<close>: \<^verbatim>\<open>Array.prototype.sort\<close> is stable, so
  the result is the one arrangement of \<open>xs\<close> in descending order of the key that keeps
  elements with equal keys in their order; the stable insertion sort on the negated key
  computes it.
\<close>

definition sortDescending :: "('a \<Rightarrow> real) \<Rightarrow> 'a list \<Rightarrow> 'a list" where
  "sortDescending key xs = sort_key (\<lambda>x. - key x) xs"

text \<open>
  \<^verbatim>\<open>
  function renderMovers(filtered) {
    ...
    if (!filtered.length) {
      renderMutedMessage(list, 'No matching data to compare yet.');
      return;
    }
    const withPrev = filtered
      .filter((row) => row.prev_spend_total_usd != null)
      .map((row) => ({ row, delta: row.spend_total_usd - row.prev_spend_total_usd }))
      .sort((a, b) => (b.delta || 0) - (a.delta || 0));
    const withoutPrev = filtered
      .filter((row) => row.prev_spend_total_usd == null)
      .sort((a, b) => (b.spend_total_usd || 0) - (a.spend_total_usd || 0))
      .map((row) => ({ row, delta: null }));
    const combined = [...withPrev, ...withoutPrev].slice(0, 10);
    if (!combined.length) {
      renderMutedMessage(list, 'No matching data to compare yet.');
      return;
    }
    combined.forEach(({ row, delta }) => { ... one list item ... });
  }
  \<close>
  The result is the muted message or the entries for which list items are built.
\<close>

record mover =
  mv_row :: row
  mv_delta :: "real option"

datatype movers_list = MutedMessage string | Movers "mover list"

definition deltaKey :: "mover \<Rightarrow> real" where
  "deltaKey m = (case mv_delta m of None \<Rightarrow> 0 | Some d \<Rightarrow> orZero d)"

definition withPrev :: "row list \<Rightarrow> mover list" where
  "withPrev filtered =
     sortDescending deltaKey
       (map (\<lambda>rw. \<lparr> mv_row = rw,
                     mv_delta = Some (spend_total_usd rw - the (prev_spend_total_usd rw)) \<rparr>)
            (filter (\<lambda>rw. prev_spend_total_usd rw \<noteq> None) filtered))"

definition withoutPrev :: "row list \<Rightarrow> mover list" where
  "withoutPrev filtered =
     map (\<lambda>rw. \<lparr> mv_row = rw, mv_delta = None \<rparr>)
         (sortDescending (\<lambda>rw. orZero (spend_total_usd rw))
            (filter (\<lambda>rw. prev_spend_total_usd rw = None) filtered))"

definition renderMovers :: "row list \<Rightarrow> movers_list" where
  "renderMovers filtered =
     (if filtered = [] then MutedMessage ''No matching data to compare yet.''
      else (let combined = take 10 (withPrev filtered @ withoutPrev filtered)
            in if combined = [] then MutedMessage ''No matching data to compare yet.''
               else Movers combined))"

text \<open>The three records of the ranking example of the specification.\<close>

definition drug :: "string \<Rightarrow> real \<Rightarrow> real option \<Rightarrow> row" where
  "drug name spend prev =
     \<lparr> part = ''D'', display_name = name, is_glp1 = False, claims = None,
       beneficiaries = None, spend_total_usd = spend, prev_spend_total_usd = prev,
       prev_year = (case prev of None \<Rightarrow> None | Some _ \<Rightarrow> Some 2022) \<rparr>"

definition example_rows :: "row list" where
  "example_rows = [drug ''A'' 100 (Some 80), drug ''B'' 50 None, drug ''C'' 40 (Some 60)]"

section \<open>Scatter projection: axes and bubbles\<close>
















record bubble =
  cx :: real
  cy :: real
  r :: real
  source :: row





section \<open>Strings\<close>

text \<open>
  Strings are byte strings here, so the functions below are those of JavaScript on ASCII
  text: the white space of \<^verbatim>\<open>trim\<close> and \<^verbatim>\<open>\s\<close> is space, tab, line feed, vertical
  tab, form feed and carriage return, and \<^verbatim>\<open>toLowerCase\<close> changes the letters A to Z.
\<close>

definition isSpace :: "char \<Rightarrow> bool" where
  "isSpace c \<longleftrightarrow> c \<in> set [CHR '' '', CHR 0x09, CHR 0x0A, CHR 0x0B, CHR 0x0C, CHR 0x0D]"

definition isDigit :: "char \<Rightarrow> bool" where
  "isDigit c \<longleftrightarrow> c \<in> set ''0123456789''"

definition lowerChar :: "char \<Rightarrow> char" where
  "lowerChar c =
     (case map_of (zip ''ABCDEFGHIJKLMNOPQRSTUVWXYZ'' ''abcdefghijklmnopqrstuvwxyz'') c of
        None \<Rightarrow> c
      | Some l \<Rightarrow> l)"

definition toLowerCase :: "string \<Rightarrow> string" where
  "toLowerCase s = map lowerChar s"

definition trim :: "string \<Rightarrow> string" where
  "trim s = rev (dropWhile isSpace (rev (dropWhile isSpace s)))"

fun join :: "string \<Rightarrow> string list \<Rightarrow> string" where
  "join sep [] = []"
| "join sep [x] = x"
| "join sep (x # y # ys) = x @ sep @ join sep (y # ys)"

text \<open>\<^verbatim>\<open>String(n)\<close> for an integer and \<^verbatim>\<open>Number.parseInt(s, 10)\<close> for a string of digits.\<close>

function digitsOf :: "nat \<Rightarrow> string" where
  "digitsOf n =
     (if n < 10 then [''0123456789'' ! n]
      else digitsOf (n div 10) @ [''0123456789'' ! (n mod 10)])"
  by pat_completeness auto
termination
  by (relation "measure id") auto

definition String_of_int :: "int \<Rightarrow> string" where
  "String_of_int i = (if i < 0 then ''-'' @ digitsOf (nat (- i)) else digitsOf (nat i))"



text \<open>\<^verbatim>\<open>s.replace(/\s+/g, '_')\<close>: every maximal run of white space becomes one underscore.\<close>

function collapseSpaces :: "string \<Rightarrow> string" where
  "collapseSpaces [] = []"
| "collapseSpaces (c # cs) =
     (if isSpace c then CHR ''_'' # collapseSpaces (dropWhile isSpace cs)
      else c # collapseSpaces cs)"
  by pat_completeness auto
termination
proof (relation "measure length")
  show "wf (measure length)" by simp
next
  fix c :: char and cs :: string
  have "length (dropWhile isSpace cs) \<le> length cs" by (rule length_dropWhile_le)
  then show "(dropWhile isSpace cs, c # cs) \<in> measure length" by simp
next
  fix c :: char and cs :: string
  show "(cs, c # cs) \<in> measure length" by simp
qed

text \<open>
  \<^verbatim>\<open>s.replace(/\(\d+\)/g, '')\<close>: scanning from the left, every opening parenthesis that
  is followed by one or more digits and a closing parenthesis is removed with them.
\<close>

function stripCounters :: "string \<Rightarrow> string" where
  "stripCounters [] = []"
| "stripCounters (c # cs) =
     (if c = CHR ''('' \<and> takeWhile isDigit cs \<noteq> [] \<and> dropWhile isDigit cs \<noteq> []
         \<and> hd (dropWhile isDigit cs) = CHR '')''
      then stripCounters (tl (dropWhile isDigit cs))
      else c # stripCounters cs)"
  by pat_completeness auto
termination
proof (relation "measure length")
  show "wf (measure length)" by simp
next
  fix c :: char and cs :: string
  have "length (tl (dropWhile isDigit cs)) \<le> length (dropWhile isDigit cs)" by simp
  also have "\<dots> \<le> length cs" by (rule length_dropWhile_le)
  finally show "(tl (dropWhile isDigit cs), c # cs) \<in> measure length" by simp
next
  fix c :: char and cs :: string
  show "(cs, c # cs) \<in> measure length" by simp
qed

section \<open>Dataset registry: file names\<close>

fun stripPrefix :: "string \<Rightarrow> string \<Rightarrow> string option" where
  "stripPrefix [] s = Some s"
| "stripPrefix (p # ps) [] = None"
| "stripPrefix (p # ps) (c # cs) = (if p = c then stripPrefix ps cs else None)"

definition skipSeparator :: "string \<Rightarrow> string" where
  "skipSeparator s =
     (case s of [] \<Rightarrow> [] | c # cs \<Rightarrow> if c = CHR ''_'' \<or> c = CHR ''-'' then cs else s)"

text \<open>
  \<^verbatim>\<open>sanitized.match(/medicare[_-]?drugs[_-]?(\d{4})\.json$/)\<close>: the pattern is tied to
  the end of the string only, so the string is read from its end: \<^verbatim>\<open>.json\<close>, four
  digits (the group), an optional separator, \<^verbatim>\<open>drugs\<close>, an optional separator,
  \<^verbatim>\<open>medicare\<close>. The result is the group, \<open>None\<close> when there is no match.
\<close>

definition medicareMatch :: "string \<Rightarrow> string option" where
  "medicareMatch s =
     (case stripPrefix (rev ''.json'') (rev s) of
        None \<Rightarrow> None
      | Some r1 \<Rightarrow>
          if length r1 \<ge> 4 \<and> list_all isDigit (take 4 r1)
          then (case stripPrefix (rev ''drugs'') (skipSeparator (drop 4 r1)) of
                  None \<Rightarrow> None
                | Some r2 \<Rightarrow>
                    (case stripPrefix (rev ''medicare'') (skipSeparator r2) of
                       None \<Rightarrow> None
                     | Some _ \<Rightarrow> Some (rev (take 4 r1))))
          else None)"

text \<open>
  \<^verbatim>\<open>
  function normalizeDataFileName(name) {
    if (!name) { return null; }
    const sanitized = name.trim().toLowerCase().replace(/\s+/g, '_').replace(/\(\d+\)/g, '');
    const medicareMatch = sanitized.match(/medicare[_-]?drugs[_-]?(\d{4})\.json$/);
    if (medicareMatch) { return `medicare_drugs_${medicareMatch[1]}.json`; }
    if (sanitized === 'nhe_retail_rx.json') { return 'nhe_retail_rx.json'; }
    return null;
  }
  \<close>
\<close>

definition sanitize :: "string \<Rightarrow> string" where
  "sanitize name = stripCounters (collapseSpaces (toLowerCase (trim name)))"

definition normalizeDataFileName :: "string \<Rightarrow> string option" where
  "normalizeDataFileName name =
     (if name = [] then None
      else (let sanitized = sanitize name
            in case medicareMatch sanitized of
                 Some digits \<Rightarrow> Some (''medicare_drugs_'' @ digits @ ''.json'')
               | None \<Rightarrow>
                   if sanitized = ''nhe_retail_rx.json'' then Some ''nhe_retail_rx.json''
                   else None))"

text \<open>
  \<^verbatim>\<open>canonicalName.match(/medicare_drugs_(\d{4})\.json$/)\<close> in \<^verbatim>\<open>handleDataUpload\<close>, and
  \<^verbatim>\<open>canonicalName.startsWith('medicare_drugs_')\<close>.
\<close>

definition yearMatch :: "string \<Rightarrow> string option" where
  "yearMatch s =
     (case stripPrefix (rev ''.json'') (rev s) of
        None \<Rightarrow> None
      | Some r1 \<Rightarrow>
          if length r1 \<ge> 4 \<and> list_all isDigit (take 4 r1)
             \<and> stripPrefix (rev ''medicare_drugs_'') (drop 4 r1) \<noteq> None
          then Some (rev (take 4 r1))
          else None)"

definition startsWith :: "string \<Rightarrow> string \<Rightarrow> bool" where
  "startsWith s p \<longleftrightarrow> stripPrefix p s \<noteq> None"

section \<open>Local cache and dataset registry\<close>

text \<open>
  The provenance of a year's dataset, \<^verbatim>\<open>'fetch'\<close>, \<^verbatim>\<open>'storage'\<close> or \<^verbatim>\<open>'session'\<close>, and the
  values that \<^verbatim>\<open>JSON.parse\<close> can give as far as the code tells them apart: an array (of
  rows), another object (the national context with its two fields), or a value that is
  not an object (\<^verbatim>\<open>null\<close>, a number, a string, a boolean).
\<close>

datatype source = FromFetch | FromStorage | FromSession

record nhe_fields =
  latest_year :: "int option"
  value_usd :: "real option"

datatype json = JArray "row list" | JObject nhe_fields | JPrimitive

text \<open>
  The store of \<^verbatim>\<open>createStorage\<close>: \<open>supported\<close> is \<^verbatim>\<open>typeof indexedDB !== 'undefined'\<close>,
  \<open>available\<close> says that the database opens and its transactions complete, \<open>entries\<close>
  are the stored files by name, and \<open>clearCalls\<close> counts the calls of
  \<^verbatim>\<open>storage.clear()\<close>. \<^verbatim>\<open>save\<close> and \<^verbatim>\<open>clear\<close> resolve to \<^verbatim>\<open>false\<close> when there is no
  database or the transaction fails.
\<close>

record idb =
  supported :: bool
  available :: bool
  entries :: "(string \<times> string) list"
  clearCalls :: nat


definition storage_clear :: "idb \<Rightarrow> idb \<times> bool" where
  "storage_clear db =
     (if supported db \<and> available db
      then (db\<lparr>entries := [], clearCalls := clearCalls db + 1\<rparr>, True)
      else (db\<lparr>clearCalls := clearCalls db + 1\<rparr>, False))"

text \<open>
  The module state \<^verbatim>\<open>state\<close> (without the two display filters), the store, and the text
  of the status element. The two \<^verbatim>\<open>Map\<close>s are association lists in insertion order;
  the field \<^verbatim>\<open>year\<close> is called \<open>selected\<close>.
\<close>

record app =
  dataByYear :: "(int \<times> row list) list"
  years :: "int list"
  selected :: "int option"
  nhe :: "json option"
  dataSources :: "(int \<times> source) list"
  nheSource :: "source option"
  storage :: idb
  dataStatus :: string

text \<open>
  What the page gets from outside: the calendar year of the clock, the answers of the
  server for \<^verbatim>\<open>data/medicare_drugs_<year>.json\<close> and \<^verbatim>\<open>data/nhe_retail_rx.json\<close> (\<open>None\<close>
  for a response that is not OK, a network error or a body that is not JSON), the
  answer to \<^verbatim>\<open>window.confirm\<close>, and \<^verbatim>\<open>JSON.parse\<close> (\<open>None\<close> when it throws).
\<close>

record world =
  clockYear :: int
  remoteData :: "int \<Rightarrow> json option"
  remoteNhe :: "json option"
  confirmAnswer :: bool
  parseJson :: "string \<Rightarrow> json option"


definition YEAR_MIN :: int where
  "YEAR_MIN = 2018"

definition sortYearsDescending :: "int list \<Rightarrow> int list" where
  "sortYearsDescending ys = sort_key (\<lambda>y. - y) ys"

text \<open>
  \<^verbatim>\<open>
  function getStoredMedicareYears() {
    return [...state.dataSources.entries()]
      .filter(([, source]) => source === 'storage')
      .map(([year]) => year)
      .sort((a, b) => b - a)
      .map((year) => String(year));
  }
  \<close>
\<close>

definition getStoredMedicareYears :: "app \<Rightarrow> string list" where
  "getStoredMedicareYears st =
     map String_of_int
       (sortYearsDescending (map fst (filter (\<lambda>(y, src). src = FromStorage) (dataSources st))))"

text \<open>
  \<^verbatim>\<open>
  function updateDataStatus(feedback = '') {
    ...
    let summary;
    if (!storage.isSupported()) {
      summary = 'This browser cannot store files locally; uploaded data will only persist for this session.';
    } else {
      const storedYears = getStoredMedicareYears();
      const parts = [];
      if (storedYears.length) { parts.push(`Medicare: ${storedYears.join(', ')}`); }
      if (state.nheSource === 'storage' && state.nhe) {
        const yearLabel = state.nhe.latest_year != null ? ` ${state.nhe.latest_year}` : '';
        parts.push(`NHE${yearLabel}`.trim());
      }
      summary = parts.length ? `Saved locally [em dash] ${parts.join('; ')}.` : 'No data saved locally yet.';
    }
    const text = feedback ? `${feedback.trim()} ${summary}`.trim() : summary;
    statusEl.textContent = text;
  }
  \<close>
  The dash of the summary is the em dash U+2014, three bytes in UTF-8. The status
  element is taken to exist (the function returns at once when it does not).
\<close>

definition emDash :: string where
  "emDash = [CHR 0xE2, CHR 0x80, CHR 0x94]"

definition nheYearLabel :: "json \<Rightarrow> string" where
  "nheYearLabel j =
     (case j of
        JObject obj \<Rightarrow>
          (case latest_year obj of None \<Rightarrow> [] | Some y \<Rightarrow> '' '' @ String_of_int y)
      | _ \<Rightarrow> [])"

definition statusSummary :: "app \<Rightarrow> string" where
  "statusSummary st =
     (if \<not> supported (storage st)
      then ''This browser cannot store files locally; uploaded data will only persist for this session.''
      else (let storedYears = getStoredMedicareYears st;
                parts1 = (if storedYears \<noteq> [] then [''Medicare: '' @ join '', '' storedYears]
                          else []);
                parts2 = (case nhe st of
                            Some j \<Rightarrow>
                              if nheSource st = Some FromStorage
                              then [trim (''NHE'' @ nheYearLabel j)] else []
                          | None \<Rightarrow> []);
                parts = parts1 @ parts2
            in if parts \<noteq> [] then ''Saved locally '' @ emDash @ '' '' @ join ''; '' parts @ ''.''
               else ''No data saved locally yet.''))"

definition updateDataStatus :: "string \<Rightarrow> app \<Rightarrow> app" where
  "updateDataStatus feedback st =
     (let summary = statusSummary st;
          text = (if feedback \<noteq> [] then trim (trim feedback @ '' '' @ summary) else summary)
      in st\<lparr>dataStatus := text\<rparr>)"

text \<open>
  \<^verbatim>\<open>
  async function discoverYears() {
    const years = new Set([...state.dataByYear.keys()]);
    const currentYear = new Date().getFullYear();
    for (let year = currentYear; year >= YEAR_MIN; year -= 1) {
      if (state.dataByYear.has(year)) { years.add(year); continue; }
      ... fetch `${DATA_PREFIX}${year}.json` ...
        if (!response.ok) { continue; }
        const data = await response.json();
        if (Array.isArray(data)) {
          state.dataByYear.set(year, data);
          state.dataSources.set(year, 'fetch');
          years.add(year);
        }
      ... network errors are ignored ...
    }
    return Array.from(years).sort((a, b) => b - a);
  }
  \<close>
  \<open>discoverStep\<close> is one round of the loop, on the state and the set \<^verbatim>\<open>years\<close>.
\<close>

definition discoverStep :: "world \<Rightarrow> app \<times> int list \<Rightarrow> int \<Rightarrow> app \<times> int list" where
  "discoverStep w acc y =
     (let st = fst acc; found = snd acc
      in if map_of (dataByYear st) y \<noteq> None then (st, List.insert y found)
         else (case remoteData w y of
                 Some (JArray data) \<Rightarrow>
                   (st\<lparr>dataByYear := AList.update y data (dataByYear st),
                       dataSources := AList.update y FromFetch (dataSources st)\<rparr>,
                    List.insert y found)
               | _ \<Rightarrow> (st, found)))"

definition discoverYears :: "world \<Rightarrow> app \<Rightarrow> app \<times> int list" where
  "discoverYears w st =
     (let acc = foldl (discoverStep w) (st, remdups (map fst (dataByYear st)))
                  (rev [YEAR_MIN..clockYear w])
      in (fst acc, sortYearsDescending (snd acc)))"

text \<open>
  \<^verbatim>\<open>
  async function refreshData({ fetchMissing = true, runUpdate = true } = {}) {
    let years;
    if (fetchMissing) { years = await discoverYears(); }
    else { years = [...state.dataByYear.keys()].sort((a, b) => b - a); }
    state.years = years;
    if (!state.years.length) {
      state.year = null; populateYearSelect(); showEmptyState(true);
      return false;
    }
    if (state.year == null || !state.years.includes(state.year)) {
      state.year = state.years[0];
    }
    populateYearSelect(); showEmptyState(false);
    if (runUpdate) { update(); }
    return true;
  }
  \<close>
  The calls that only draw (\<^verbatim>\<open>populateYearSelect\<close>, \<^verbatim>\<open>showEmptyState\<close>, \<^verbatim>\<open>update\<close>) leave
  the state as it is and are not part of the model, so \<^verbatim>\<open>runUpdate\<close> is not a parameter.
\<close>

definition refreshData :: "world \<Rightarrow> bool \<Rightarrow> app \<Rightarrow> app \<times> bool" where
  "refreshData w fetchMissing st =
     (let found = (if fetchMissing then discoverYears w st
                   else (st, sortYearsDescending (remdups (map fst (dataByYear st)))));
          st1 = (fst found)\<lparr>years := snd found\<rparr>
      in case years st1 of
           [] \<Rightarrow> (st1\<lparr>selected := None\<rparr>, False)
         | y # ys \<Rightarrow>
             ((case selected st1 of
                 None \<Rightarrow> st1\<lparr>selected := Some y\<rparr>
               | Some cur \<Rightarrow> if cur \<notin> set (years st1) then st1\<lparr>selected := Some y\<rparr> else st1),
              True))"

text \<open>
  \<^verbatim>\<open>
  async function loadNhe() {
    if (state.nhe) { return; }
    ... fetch NHE_PATH ...
      if (!response.ok) { return; }
      const payload = await response.json();
      if (payload && typeof payload === 'object') {
        state.nhe = payload;
        state.nheSource = 'fetch';
      }
    ... fetch errors are swallowed ...
  }
  \<close>
\<close>

definition loadNhe :: "world \<Rightarrow> app \<Rightarrow> app" where
  "loadNhe w st =
     (if nhe st \<noteq> None then st
      else (case remoteNhe w of
              None \<Rightarrow> st
            | Some JPrimitive \<Rightarrow> st
            | Some payload \<Rightarrow> st\<lparr>nhe := Some payload, nheSource := Some FromFetch\<rparr>))"










text \<open>
  \<^verbatim>\<open>
  async function forgetStoredData() {
    const hadStored = getStoredMedicareYears().length > 0 || state.nheSource === 'storage';
    const hadSession = [...state.dataSources.values()].some((value) => value === 'session')
      || state.nheSource === 'session';
    if (storage.isSupported()) { await storage.clear(); }
    [...state.dataSources.entries()].forEach(([year, source]) => {
      if (source === 'storage' || source === 'session') {
        state.dataSources.delete(year);
        state.dataByYear.delete(year);
      }
    });
    if (state.nheSource === 'storage' || state.nheSource === 'session') {
      state.nhe = null;
      state.nheSource = null;
    }
    const hasData = await refreshData({ fetchMissing: true, runUpdate: false });
    await loadNhe();
    if (hasData) { update(); }
    const message = hadStored || hadSession ? 'Saved data cleared.' : 'No saved data to clear.';
    updateDataStatus(message);
  }
  \<close>
\<close>

definition hasStored :: "app \<Rightarrow> bool" where
  "hasStored st \<longleftrightarrow> getStoredMedicareYears st \<noteq> [] \<or> nheSource st = Some FromStorage"

definition hasSessionUploads :: "app \<Rightarrow> bool" where
  "hasSessionUploads st \<longleftrightarrow>
     list_ex (\<lambda>v. v = FromSession) (map snd (dataSources st)) \<or> nheSource st = Some FromSession"

definition forgetEntry :: "app \<Rightarrow> int \<times> source \<Rightarrow> app" where
  "forgetEntry st entry =
     (if snd entry = FromStorage \<or> snd entry = FromSession
      then st\<lparr>dataSources := AList.delete (fst entry) (dataSources st),
              dataByYear := AList.delete (fst entry) (dataByYear st)\<rparr>
      else st)"

definition forgetStoredData :: "world \<Rightarrow> app \<Rightarrow> app" where
  "forgetStoredData w st =
     (let hadStored = hasStored st;
          hadSession = hasSessionUploads st;
          st1 = (if supported (storage st) then st\<lparr>storage := fst (storage_clear (storage st))\<rparr>
                 else st);
          st2 = foldl forgetEntry st1 (dataSources st1);
          st3 = (if nheSource st2 = Some FromStorage \<or> nheSource st2 = Some FromSession
                 then st2\<lparr>nhe := None, nheSource := None\<rparr> else st2);
          st4 = fst (refreshData w True st3);
          st5 = loadNhe w st4;
          message = (if hadStored \<or> hadSession then ''Saved data cleared.''
                     else ''No saved data to clear.'')
      in updateDataStatus message st5)"

text \<open>
  The handler of the clear button in \<^verbatim>\<open>bindDataControls\<close>:
  \<^verbatim>\<open>
  clearDataButton.addEventListener('click', async () => {
    const hasStored = getStoredMedicareYears().length > 0 || state.nheSource === 'storage';
    const hasSessionUploads =
      [...state.dataSources.values()].some((value) => value === 'session')
      || state.nheSource === 'session';
    if (!hasStored && !hasSessionUploads && !state.nhe) {
      updateDataStatus('No saved data to clear.');
      return;
    }
    if (hasStored || hasSessionUploads) {
      const confirmed = window.confirm('Remove locally saved data from this browser?');
      if (!confirmed) { return; }
    }
    await forgetStoredData();
  });
  \<close>
\<close>

definition clearDataClick :: "world \<Rightarrow> app \<Rightarrow> app" where
  "clearDataClick w st =
     (if \<not> hasStored st \<and> \<not> hasSessionUploads st \<and> nhe st = None
      then updateDataStatus ''No saved data to clear.'' st
      else if (hasStored st \<or> hasSessionUploads st) \<and> \<not> confirmAnswer w then st
      else forgetStoredData w st)"









text \<open>
  A world and a batch for the examples: the server has no data, \<^verbatim>\<open>JSON.parse\<close> knows the
  three texts \<^verbatim>\<open>[]\<close>, \<^verbatim>\<open>{}\<close> and \<^verbatim>\<open>7\<close>, the page has just started with nothing
  loaded, and three files are uploaded: a dataset of 2022 with an array, a dataset of
  2021 with an object, and a file with another name.
\<close>

definition sample_parse :: "string \<Rightarrow> json option" where
  "sample_parse s =
     (if s = ''[]'' then Some (JArray [])
      else if s = ''{}'' then Some (JObject \<lparr> latest_year = None, value_usd = None \<rparr>)
      else if s = ''7'' then Some JPrimitive
      else None)"

definition sample_world :: world where
  "sample_world =
     \<lparr> clockYear = 2026, remoteData = (\<lambda>y. None), remoteNhe = None, confirmAnswer = True,
       parseJson = sample_parse \<rparr>"

definition empty_store :: idb where
  "empty_store = \<lparr> supported = True, available = True, entries = [], clearCalls = 0 \<rparr>"

definition started_app :: app where
  "started_app =
     \<lparr> dataByYear = [], years = [], selected = None, nhe = None, dataSources = [],
       nheSource = None, storage = empty_store, dataStatus = [] \<rparr>"






text \<open>
  Every dataset of the registry came from the server, and the page as it is after a
  start at which the server had only the national context.
\<close>

definition only_fetched :: "app \<Rightarrow> bool" where
  "only_fetched st \<longleftrightarrow> (\<forall>e \<in> set (dataSources st). snd e = FromFetch)"

definition fetched_context_app :: app where
  "fetched_context_app =
     started_app\<lparr> nhe := Some (JObject \<lparr> latest_year = Some 2023, value_usd = Some 1 \<rparr>),
                  nheSource := Some FromFetch \<rparr>"

definition unsupportedText :: string where
  "unsupportedText =
     ''This browser cannot store files locally; uploaded data will only persist for this session.''"


text \<open>
  \<open>kept st0 st\<close>: \<open>st\<close> has only fetched datasets, the context and the store of \<open>st0\<close>,
  and every dataset of \<open>st0\<close>.
\<close>

definition kept :: "app \<Rightarrow> app \<Rightarrow> bool" where
  "kept st0 st \<longleftrightarrow>
     only_fetched st \<and> nhe st = nhe st0 \<and> nheSource st = nheSource st0
     \<and> storage st = storage st0
     \<and> (\<forall>y d. map_of (dataByYear st0) y = Some d \<longrightarrow> map_of (dataByYear st) y = Some d)"


section \<open>Facts about the decimal exponent\<close>









section \<open>Facts about the axes and the bubbles\<close>



















subsection \<open>The plot of the single-claim slice\<close>









section \<open>Claims about the scatter projection\<close>











section \<open>The animated counter\<close>

lemma render_fields [simp]: "val (render c) = val c" "rate (render c) = rate c" "limit (render c) = limit c"
  by (simp_all add: render_def Let_def)






















section \<open>The time context\<close>

lemma div_bounds:
  fixes a :: int
  assumes "0 < k"
  shows "k * (a div k) \<le> a" and "a < k * (a div k) + k"
proof -
  have "a = k * (a div k) + a mod k" by simp
  moreover have "0 \<le> a mod k" "a mod k < k" using assms by simp_all
  ultimately show "k * (a div k) \<le> a" and "a < k * (a div k) + k" by linarith+
qed

lemma DayFromYear_bounds:
  assumes "- 271820 \<le> y" and "y \<le> 275760"
  shows "- 100000000 \<le> DayFromYear y" and "DayFromYear y \<le> 100000000"
proof -
  define A where "A = (y - 1969) div 4"
  define B where "B = (y - 1901) div 100"
  define C where "C = (y - 1601) div 400"
  have a: "4 * A \<le> y - 1969" "y - 1969 < 4 * A + 4"
    unfolding A_def by (rule div_bounds; simp)+
  have b: "100 * B \<le> y - 1901" "y - 1901 < 100 * B + 100"
    unfolding B_def by (rule div_bounds; simp)+
  have c: "400 * C \<le> y - 1601" "y - 1601 < 400 * C + 400"
    unfolding C_def by (rule div_bounds; simp)+
  have eq: "DayFromYear y = 365 * y - 719050 + A - B + C"
    by (simp add: DayFromYear_def A_def B_def C_def)
  show "- 100000000 \<le> DayFromYear y"
    unfolding eq using assms a b c by linarith
  show "DayFromYear y \<le> 100000000"
    unfolding eq using assms a b c by linarith
qed

lemma MakeFullYear_range:
  "- 271820 \<le> y \<Longrightarrow> y \<le> 275760 \<Longrightarrow> - 271820 \<le> MakeFullYear y \<and> MakeFullYear y \<le> 275760"
  by (simp add: MakeFullYear_def)

lemma Date_UTC_Num:
  assumes "- 271820 \<le> y" and "y \<le> 275760"
  shows "Date_UTC y = Num (of_int (msPerDay * DayFromYear (MakeFullYear y)))"
proof -
  have "- 100000000 \<le> DayFromYear (MakeFullYear y)" "DayFromYear (MakeFullYear y) \<le> 100000000"
    using MakeFullYear_range [OF assms] by (simp_all add: DayFromYear_bounds)
  then have "\<bar>msPerDay * DayFromYear (MakeFullYear y)\<bar> \<le> 8640000000000000"
    unfolding msPerDay_def by linarith
  then show ?thesis
    by (simp add: Date_UTC_def TimeClip_def)
qed

lemma yearSeconds_Num:
  assumes "date_range year"
  shows "yearSeconds (computeTimeContext year now thisYear) = Num (seconds_in_year year)"
proof -
  have a: "Date_UTC year = Num (of_int (msPerDay * DayFromYear (MakeFullYear year)))"
    using assms by (intro Date_UTC_Num) (simp_all add: date_range_def)
  have b: "Date_UTC (year + 1) = Num (of_int (msPerDay * DayFromYear (MakeFullYear (year + 1))))"
    using assms by (intro Date_UTC_Num) (simp_all add: date_range_def)
  have c: "(86400000 * x - 86400000 * z) / 1000 = 86400 * (x - z)" for x z :: real
    by simp
  show ?thesis
    unfolding computeTimeContext_def Let_def a b
    by (simp add: js_sub_def seconds_in_year_def msPerDay_def c)
qed

lemma start_Num:
  assumes "date_range year"
  shows "js_div (js_sub (Num (of_int now)) (Date_UTC year)) (Num 1000)
         = Num (seconds_since_start year now)"
proof -
  have a: "Date_UTC year = Num (of_int (msPerDay * DayFromYear (MakeFullYear year)))"
    using assms by (intro Date_UTC_Num) (simp_all add: date_range_def)
  show ?thesis
    unfolding a by (simp add: js_sub_def seconds_since_start_def)
qed

lemma MakeFullYear_step:
  assumes "year \<noteq> 99"
  shows "MakeFullYear year < MakeFullYear (year + 1)"
  using assms by (simp add: MakeFullYear_def)

lemma div_succ:
  fixes a k :: int
  assumes "0 < k"
  shows "(a + 1) div k = a div k + (if k dvd a + 1 then 1 else 0)"
proof (cases "a mod k = k - 1")
  case True
  have "a = k * (a div k) + a mod k" by simp
  then have eq: "a + 1 = k * (a div k + 1) + 0"
    using True by (simp add: algebra_simps)
  have "(a + 1) div k = a div k + 1"
    using assms by (intro int_div_pos_eq [OF eq]) simp_all
  moreover have "k dvd a + 1"
    using eq by (metis add.right_neutral dvd_triv_left)
  ultimately show ?thesis by simp
next
  case False
  have r: "0 \<le> a mod k" "a mod k < k" using assms by simp_all
  with False have lt: "a mod k + 1 < k" by linarith
  have "a = k * (a div k) + a mod k" by simp
  then have eq: "a + 1 = k * (a div k) + (a mod k + 1)" by simp
  have d: "(a + 1) div k = a div k"
    using r lt by (intro int_div_pos_eq [OF eq]) simp_all
  have "(a + 1) mod k = a mod k + 1"
    using r lt by (intro int_mod_pos_eq [OF eq]) simp_all
  then have "(a + 1) mod k \<noteq> 0" using r by linarith
  then have "\<not> k dvd a + 1" by (simp add: dvd_eq_mod_eq_0)
  with d show ?thesis by simp
qed

lemma DayFromYear_step: "DayFromYear (y + 1) = DayFromYear y + (if leap y then 366 else 365)"
proof -
  have a: "(y + 1 - 1969) div 4 = (y - 1969) div 4 + (if 4 dvd y then 1 else 0)"
  proof -
    have "(4::int) dvd 1968" by simp
    then have "4 dvd y - 1968 \<longleftrightarrow> 4 dvd y" by (rule dvd_diff_left_iff)
    then show ?thesis using div_succ [of 4 "y - 1969"] by simp
  qed
  have b: "(y + 1 - 1901) div 100 = (y - 1901) div 100 + (if 100 dvd y then 1 else 0)"
  proof -
    have "(100::int) dvd 1900" by simp
    then have "100 dvd y - 1900 \<longleftrightarrow> 100 dvd y" by (rule dvd_diff_left_iff)
    then show ?thesis using div_succ [of 100 "y - 1901"] by simp
  qed
  have c: "(y + 1 - 1601) div 400 = (y - 1601) div 400 + (if 400 dvd y then 1 else 0)"
  proof -
    have "(400::int) dvd 1600" by simp
    then have "400 dvd y - 1600 \<longleftrightarrow> 400 dvd y" by (rule dvd_diff_left_iff)
    then show ?thesis using div_succ [of 400 "y - 1601"] by simp
  qed
  have d: "400 dvd y \<Longrightarrow> 100 dvd y" "100 dvd y \<Longrightarrow> 4 dvd y"
    by (erule dvd_trans [rotated], simp)+
  have l: "leap y \<longleftrightarrow> (4 dvd y \<and> \<not> 100 dvd y) \<or> 400 dvd y"
    by (simp add: leap_def dvd_eq_mod_eq_0)
  have "DayFromYear (y + 1)
        = 365 * (y - 1970) + 365 + (y + 1 - 1969) div 4 - (y + 1 - 1901) div 100
          + (y + 1 - 1601) div 400"
    unfolding DayFromYear_def by (simp add: algebra_simps)
  then show ?thesis
    unfolding a b c l DayFromYear_def using d by auto
qed

lemma DayFromYear_mono: "x < y \<Longrightarrow> DayFromYear x < DayFromYear y"
proof -
  have less: "DayFromYear x < DayFromYear (x + 1)" for x
    by (simp add: DayFromYear_step)
  have "DayFromYear x < DayFromYear (x + 1 + int n)" for n
  proof (induction n)
    case 0
    show ?case using less [of x] by simp
  next
    case (Suc n)
    have "DayFromYear (x + 1 + int n) < DayFromYear (x + 1 + int n + 1)"
      by (rule less)
    with Suc show ?case by (simp add: add.assoc)
  qed
  from this [of "nat (y - x - 1)"] show "x < y \<Longrightarrow> DayFromYear x < DayFromYear y"
    by simp
qed

lemma seconds_in_year_pos: "year \<noteq> 99 \<Longrightarrow> 0 < seconds_in_year year"
  using DayFromYear_mono [OF MakeFullYear_step] by (simp add: seconds_in_year_def)

lemma seconds_in_year_leap:
  assumes "year < - 1 \<or> 99 < year"
  shows "seconds_in_year year = 86400 * (if leap year then 366 else 365)"
  using assms by (auto simp: seconds_in_year_def MakeFullYear_def DayFromYear_step)



lemma yearSecs_Num:
  assumes "date_range year"
  shows "js_div (js_sub (Date_UTC (year + 1)) (Date_UTC year)) (Num 1000)
         = Num (seconds_in_year year)"
  using yearSeconds_Num [OF assms, of 0 0] by (simp add: computeTimeContext_def Let_def)

lemma elapsed_past:
  assumes "date_range year" and "year < thisYear"
  shows "elapsedSeconds (computeTimeContext year now thisYear) = Num (seconds_in_year year)"
  using assms(2) by (simp add: computeTimeContext_def Let_def yearSecs_Num [OF assms(1)])

lemma elapsed_future:
  assumes "thisYear < year"
  shows "elapsedSeconds (computeTimeContext year now thisYear) = Num 0"
  using assms by (simp add: computeTimeContext_def Let_def)

lemma elapsed_current:
  assumes "date_range year"
  shows "elapsedSeconds (computeTimeContext year now year)
         = Num (max 0 (min (seconds_in_year year) (seconds_since_start year now)))"
  by (simp add: computeTimeContext_def Let_def yearSecs_Num [OF assms] start_Num [OF assms])

lemma isCurrent_iff:
  assumes "date_range year"
  shows "isCurrent (computeTimeContext year now thisYear)
         \<longleftrightarrow> year = thisYear
             \<and> max 0 (min (seconds_in_year year) (seconds_since_start year now))
                 < seconds_in_year year"
proof (cases "year = thisYear")
  case True
  have "isCurrent (computeTimeContext year now year)
        \<longleftrightarrow> max 0 (min (seconds_in_year year) (seconds_since_start year now))
            < seconds_in_year year"
    by (simp add: computeTimeContext_def Let_def yearSecs_Num [OF assms] start_Num [OF assms])
  with True show ?thesis by simp
next
  case False
  then show ?thesis by (simp add: computeTimeContext_def Let_def)
qed

lemma elapsed_in_range:
  assumes "date_range year" and "year \<noteq> 99"
  shows "\<exists>E. elapsedSeconds (computeTimeContext year now thisYear) = Num E
            \<and> 0 \<le> E \<and> E \<le> seconds_in_year year"
proof -
  have pos: "0 < seconds_in_year year"
    using assms(2) by (rule seconds_in_year_pos)
  consider "year < thisYear" | "thisYear < year" | "year = thisYear" by linarith
  then show ?thesis
  proof cases
    case 1
    then show ?thesis using elapsed_past [OF assms(1) 1, of now] pos by simp
  next
    case 2
    then show ?thesis using elapsed_future [OF 2, of now] pos by simp
  next
    case 3
    then show ?thesis using elapsed_current [OF assms(1), of now] pos by simp
  qed
qed

text \<open>
  Claim C2, as amended. For every year \<open>y\<close> other than 99 at which \<^verbatim>\<open>Date.UTC\<close> is
  defined, and every instant \<open>now\<close>: if \<open>y\<close> is strictly before the current calendar
  year, \<open>elapsedSeconds = totalSeconds\<close> and \<open>isLive = false\<close>; if it is strictly after,
  \<open>elapsedSeconds = 0\<close> and \<open>isLive = false\<close>; if it is the current year,
  \<open>elapsedSeconds = clamp(secondsSinceYearStart, 0, totalSeconds)\<close> and
  \<open>isLive = (elapsedSeconds < totalSeconds)\<close>. In all these cases \<open>totalSeconds\<close> is
  positive and \<open>elapsedSeconds\<close> lies in \<open>[0, totalSeconds]\<close>.
\<close>

theorem time_context_cases:
  assumes "date_range year" and "year \<noteq> 99"
  shows "yearSeconds (computeTimeContext year now thisYear) = Num (seconds_in_year year)
    \<and> 0 < seconds_in_year year
    \<and> (year < thisYear \<longrightarrow>
          elapsedSeconds (computeTimeContext year now thisYear) = Num (seconds_in_year year)
          \<and> \<not> isCurrent (computeTimeContext year now thisYear))
    \<and> (thisYear < year \<longrightarrow>
          elapsedSeconds (computeTimeContext year now thisYear) = Num 0
          \<and> \<not> isCurrent (computeTimeContext year now thisYear))
    \<and> (year = thisYear \<longrightarrow>
          elapsedSeconds (computeTimeContext year now thisYear)
            = Num (max 0 (min (seconds_in_year year) (seconds_since_start year now)))
          \<and> (isCurrent (computeTimeContext year now thisYear)
               \<longleftrightarrow> max 0 (min (seconds_in_year year) (seconds_since_start year now))
                     < seconds_in_year year))
    \<and> (\<exists>E. elapsedSeconds (computeTimeContext year now thisYear) = Num E
            \<and> 0 \<le> E \<and> E \<le> seconds_in_year year)"
proof -
  have a: "yearSeconds (computeTimeContext year now thisYear) = Num (seconds_in_year year)"
    by (rule yearSeconds_Num [OF assms(1)])
  have b: "0 < seconds_in_year year"
    by (rule seconds_in_year_pos [OF assms(2)])
  have c: "year < thisYear \<longrightarrow>
          elapsedSeconds (computeTimeContext year now thisYear) = Num (seconds_in_year year)
          \<and> \<not> isCurrent (computeTimeContext year now thisYear)"
    using elapsed_past [OF assms(1), of thisYear now] isCurrent_iff [OF assms(1), of now thisYear]
    by simp
  have d: "thisYear < year \<longrightarrow>
          elapsedSeconds (computeTimeContext year now thisYear) = Num 0
          \<and> \<not> isCurrent (computeTimeContext year now thisYear)"
    using elapsed_future [of thisYear year now] isCurrent_iff [OF assms(1), of now thisYear]
    by simp
  have e: "year = thisYear \<longrightarrow>
          elapsedSeconds (computeTimeContext year now thisYear)
            = Num (max 0 (min (seconds_in_year year) (seconds_since_start year now)))
          \<and> (isCurrent (computeTimeContext year now thisYear)
               \<longleftrightarrow> max 0 (min (seconds_in_year year) (seconds_since_start year now))
                     < seconds_in_year year)"
    using elapsed_current [OF assms(1), of now] isCurrent_iff [OF assms(1), of now thisYear]
    by auto
  have f: "\<exists>E. elapsedSeconds (computeTimeContext year now thisYear) = Num E
            \<and> 0 \<le> E \<and> E \<le> seconds_in_year year"
    by (rule elapsed_in_range [OF assms])
  from a b c d e f show ?thesis by blast
qed

lemma seconds_2023: "seconds_in_year 2023 = 31536000"
  by (simp add: seconds_in_year_def MakeFullYear_def DayFromYear_def)

lemma seconds_2024: "seconds_in_year 2024 = 31622400"
  by (simp add: seconds_in_year_def MakeFullYear_def DayFromYear_def)

lemma seconds_2026: "seconds_in_year 2026 = 31536000"
  by (simp add: seconds_in_year_def MakeFullYear_def DayFromYear_def)

lemma seconds_99: "seconds_in_year 99 = - 59926608000"
  by (simp add: seconds_in_year_def MakeFullYear_def DayFromYear_def)

lemma since_2026: "seconds_since_start 2026 1793664000000 = 26438400"
  by (simp add: seconds_since_start_def MakeFullYear_def DayFromYear_def msPerDay_def)

theorem time_context_cases_witness:
  "(date_range 2026 \<and> (2026::int) \<noteq> 99)
    \<and> computeTimeContext 2026 1793664000000 2026
        = \<lparr> yearSeconds = Num 31536000, elapsedSeconds = Num 26438400, isCurrent = True \<rparr>
    \<and> computeTimeContext 2024 1793664000000 2026
        = \<lparr> yearSeconds = Num 31622400, elapsedSeconds = Num 31622400, isCurrent = False \<rparr>
    \<and> computeTimeContext 2027 1793664000000 2026
        = \<lparr> yearSeconds = Num 31536000, elapsedSeconds = Num 0, isCurrent = False \<rparr>"
proof -
  have r: "date_range 2026" "date_range 2024" "date_range 2027"
    by (simp_all add: date_range_def)
  have s27: "seconds_in_year 2027 = 31536000"
    by (simp add: seconds_in_year_def MakeFullYear_def DayFromYear_def)
  have a: "computeTimeContext 2026 1793664000000 2026
        = \<lparr> yearSeconds = Num 31536000, elapsedSeconds = Num 26438400, isCurrent = True \<rparr>"
    using time_context_cases [OF r(1), of 1793664000000 2026] seconds_2026 since_2026
    by (cases "computeTimeContext 2026 1793664000000 2026") simp
  have b: "computeTimeContext 2024 1793664000000 2026
        = \<lparr> yearSeconds = Num 31622400, elapsedSeconds = Num 31622400, isCurrent = False \<rparr>"
    using time_context_cases [OF r(2), of 1793664000000 2026] seconds_2024
    by (cases "computeTimeContext 2024 1793664000000 2026") simp
  have c: "computeTimeContext 2027 1793664000000 2026
        = \<lparr> yearSeconds = Num 31536000, elapsedSeconds = Num 0, isCurrent = False \<rparr>"
    using time_context_cases [OF r(3), of 1793664000000 2026] s27
    by (cases "computeTimeContext 2027 1793664000000 2026") simp
  from r(1) a b c show ?thesis by simp
qed

text \<open>
  \<^verbatim>\<open>Date.UTC\<close> reads the year 99 as 1999 and the year 100 as 100, so for the year 99 the
  total is negative, and for a past year the elapsed seconds are that negative total.
\<close>

lemma context_99:
  "99 < thisYear \<Longrightarrow>
   computeTimeContext 99 now thisYear
     = \<lparr> yearSeconds = Num (- 59926608000), elapsedSeconds = Num (- 59926608000),
         isCurrent = False \<rparr>"
  using yearSeconds_Num [of 99 now thisYear] elapsed_past [of 99 thisYear now]
    isCurrent_iff [of 99 now thisYear] seconds_99
  by (cases "computeTimeContext 99 now thisYear") (simp add: date_range_def)

theorem time_context_year99_counterexample:
  "computeTimeContext 99 1793664000000 2026
     = \<lparr> yearSeconds = Num (- 59926608000), elapsedSeconds = Num (- 59926608000),
         isCurrent = False \<rparr>
   \<and> \<not> js_le (Num 0) (elapsedSeconds (computeTimeContext 99 1793664000000 2026))"
  using context_99 [of 2026 1793664000000] by simp

text \<open>
  Claim C8, as amended. \<open>totalSeconds\<close> is derived from the UTC boundaries of the
  calendar year: for every year other than 99 at which \<^verbatim>\<open>Date.UTC\<close> is defined,
  \<open>elapsedSeconds\<close> lies in \<open>[0, totalSeconds]\<close>; for the years below -1 and above 99,
  \<open>totalSeconds\<close> is 86400 times the 366 days of a leap year or the 365 days of another
  year; and \<open>totalSeconds\<close> of the leap year 2024 exceeds that of 2023 by exactly 86400.
\<close>

theorem year_seconds:
  "(date_range year \<and> year \<noteq> 99 \<longrightarrow>
      (\<exists>T E. yearSeconds (computeTimeContext year now thisYear) = Num T
            \<and> elapsedSeconds (computeTimeContext year now thisYear) = Num E
            \<and> 0 \<le> E \<and> E \<le> T))
   \<and> (date_range year \<and> (year < - 1 \<or> 99 < year) \<longrightarrow>
        yearSeconds (computeTimeContext year now thisYear)
          = Num (86400 * (if leap year then 366 else 365)))
   \<and> yearSeconds (computeTimeContext 2024 now thisYear) = Num 31622400
   \<and> yearSeconds (computeTimeContext 2023 now thisYear) = Num 31536000
   \<and> (31622400::real) - 31536000 = 86400"
proof -
  have a: "date_range year \<and> year \<noteq> 99 \<longrightarrow>
      (\<exists>T E. yearSeconds (computeTimeContext year now thisYear) = Num T
            \<and> elapsedSeconds (computeTimeContext year now thisYear) = Num E
            \<and> 0 \<le> E \<and> E \<le> T)"
    using yearSeconds_Num [of year now thisYear] elapsed_in_range [of year now thisYear]
    by blast
  have b: "date_range year \<and> (year < - 1 \<or> 99 < year) \<longrightarrow>
        yearSeconds (computeTimeContext year now thisYear)
          = Num (86400 * (if leap year then 366 else 365))"
    using yearSeconds_Num [of year now thisYear] seconds_in_year_leap [of year]
    by auto
  have c: "yearSeconds (computeTimeContext 2024 now thisYear) = Num 31622400"
    using yearSeconds_Num [of 2024 now thisYear] seconds_2024 by (simp add: date_range_def)
  have d: "yearSeconds (computeTimeContext 2023 now thisYear) = Num 31536000"
    using yearSeconds_Num [of 2023 now thisYear] seconds_2023 by (simp add: date_range_def)
  from a b c d show ?thesis by simp
qed

theorem year_seconds_witness:
  "(date_range 2024 \<and> (2024::int) \<noteq> 99 \<and> ((2024::int) < - 1 \<or> (99::int) < 2024))
   \<and> leap 2024
   \<and> yearSeconds (computeTimeContext 2024 1793664000000 2026) = Num (86400 * 366)
   \<and> (\<exists>T E. yearSeconds (computeTimeContext 2024 1793664000000 2026) = Num T
            \<and> elapsedSeconds (computeTimeContext 2024 1793664000000 2026) = Num E
            \<and> 0 \<le> E \<and> E \<le> T)"
proof -
  have r: "date_range 2024" by (simp add: date_range_def)
  have l: "leap 2024" by (simp add: leap_def)
  have n: "(2024::int) \<noteq> 99" "(2024::int) < - 1 \<or> (99::int) < 2024" by simp_all
  note t = year_seconds [of 2024 1793664000000 2026]
  from t r n have e: "\<exists>T E. yearSeconds (computeTimeContext 2024 1793664000000 2026) = Num T
            \<and> elapsedSeconds (computeTimeContext 2024 1793664000000 2026) = Num E
            \<and> 0 \<le> E \<and> E \<le> T"
    by blast
  from t r n have "yearSeconds (computeTimeContext 2024 1793664000000 2026)
                   = Num (86400 * (if leap 2024 then 366 else 365))"
    by blast
  with l have y: "yearSeconds (computeTimeContext 2024 1793664000000 2026) = Num (86400 * 366)"
    by simp
  from r l n y e show ?thesis by blast
qed

theorem year_seconds_year99_counterexample:
  "yearSeconds (computeTimeContext 99 1767225600000 2026) = Num (- 59926608000)
   \<and> elapsedSeconds (computeTimeContext 99 1767225600000 2026) = Num (- 59926608000)
   \<and> \<not> (js_le (Num 0) (elapsedSeconds (computeTimeContext 99 1767225600000 2026))
        \<and> js_le (elapsedSeconds (computeTimeContext 99 1767225600000 2026))
                (yearSeconds (computeTimeContext 99 1767225600000 2026)))"
  using context_99 [of 2026 1767225600000] by simp


section \<open>The movers ranking\<close>

lemma sortDescending_mset [simp]: "mset (sortDescending key xs) = mset xs"
  by (simp add: sortDescending_def)

lemma sortDescending_sorted: "sorted_wrt (\<lambda>a b. key b \<le> key a) (sortDescending key xs)"
proof -
  have "sorted (map (\<lambda>x. - key x) (sort_key (\<lambda>x. - key x) xs))"
    by (rule sorted_sort_key)
  then show ?thesis
    by (simp add: sortDescending_def sorted_map)
qed

lemma sortDescending_set [simp]: "set (sortDescending key xs) = set xs"
  by (simp add: sortDescending_def)

lemma example_movers:
  "renderMovers example_rows =
     Movers [\<lparr>mv_row = drug ''A'' 100 (Some 80), mv_delta = Some 20\<rparr>,
             \<lparr>mv_row = drug ''C'' 40 (Some 60), mv_delta = Some (- 20)\<rparr>,
             \<lparr>mv_row = drug ''B'' 50 None, mv_delta = None\<rparr>]"
  by (simp add: renderMovers_def withPrev_def withoutPrev_def sortDescending_def deltaKey_def
      orZero_def example_rows_def drug_def Let_def)


lemma orZero_id [simp]: "orZero x = x"
  by (simp add: orZero_def)

lemma withPrev_rows:
  "mset (map mv_row (withPrev filtered))
   = mset (filter (\<lambda>rw. prev_spend_total_usd rw \<noteq> None) filtered)"
proof -
  have "mset (map mv_row (withPrev filtered))
        = image_mset mv_row (mset (withPrev filtered))"
    by simp
  also have "\<dots> = image_mset mv_row
       (mset (map (\<lambda>rw. \<lparr> mv_row = rw,
                     mv_delta = Some (spend_total_usd rw - the (prev_spend_total_usd rw)) \<rparr>)
            (filter (\<lambda>rw. prev_spend_total_usd rw \<noteq> None) filtered)))"
    by (simp only: withPrev_def sortDescending_mset)
  also have "\<dots> = mset (filter (\<lambda>rw. prev_spend_total_usd rw \<noteq> None) filtered)"
    by (simp add: image_mset.compositionality comp_def)
  finally show ?thesis .
qed

lemma withPrev_delta:
  assumes "m \<in> set (withPrev filtered)"
  shows "\<exists>p. prev_spend_total_usd (mv_row m) = Some p
            \<and> mv_delta m = Some (spend_total_usd (mv_row m) - p)"
  using assms by (auto simp: withPrev_def)

lemma withPrev_sorted:
  "sorted_wrt (\<lambda>a b. the (mv_delta b) \<le> the (mv_delta a)) (withPrev filtered)"
proof -
  have s: "sorted_wrt (\<lambda>a b. deltaKey b \<le> deltaKey a) (withPrev filtered)"
    unfolding withPrev_def by (rule sortDescending_sorted)
  have k: "deltaKey m = the (mv_delta m)" if "m \<in> set (withPrev filtered)" for m
    using withPrev_delta [OF that] by (auto simp: deltaKey_def)
  show ?thesis
    by (rule sorted_wrt_mono_rel [OF _ s]) (simp add: k)
qed

lemma withoutPrev_rows:
  "mset (map mv_row (withoutPrev filtered))
   = mset (filter (\<lambda>rw. prev_spend_total_usd rw = None) filtered)"
proof -
  have "map mv_row (withoutPrev filtered)
        = sortDescending (\<lambda>rw. orZero (spend_total_usd rw))
            (filter (\<lambda>rw. prev_spend_total_usd rw = None) filtered)"
    by (simp add: withoutPrev_def comp_def)
  then show ?thesis by simp
qed

lemma withoutPrev_delta: "m \<in> set (withoutPrev filtered) \<Longrightarrow> mv_delta m = None"
  by (auto simp: withoutPrev_def)

lemma withoutPrev_sorted:
  "sorted_wrt (\<lambda>a b. spend_total_usd (mv_row b) \<le> spend_total_usd (mv_row a))
     (withoutPrev filtered)"
proof -
  have "sorted_wrt (\<lambda>a b. orZero (spend_total_usd b) \<le> orZero (spend_total_usd a))
          (sortDescending (\<lambda>rw. orZero (spend_total_usd rw))
             (filter (\<lambda>rw. prev_spend_total_usd rw = None) filtered))"
    by (rule sortDescending_sorted)
  then show ?thesis
    by (simp add: withoutPrev_def sorted_wrt_map)
qed

lemma combined_length:
  "length (withPrev filtered @ withoutPrev filtered) = length filtered"
  using sum_length_filter_compl [of "\<lambda>rw. prev_spend_total_usd rw = None" filtered]
  by (simp add: withPrev_def withoutPrev_def sortDescending_def add.commute)

lemma renderMovers_nonempty:
  assumes "filtered \<noteq> []"
  shows "renderMovers filtered = Movers (take 10 (withPrev filtered @ withoutPrev filtered))"
proof -
  have "0 < length (withPrev filtered @ withoutPrev filtered)"
    using assms by (simp only: combined_length) simp
  then have "take 10 (withPrev filtered @ withoutPrev filtered) \<noteq> []"
    by (cases "withPrev filtered @ withoutPrev filtered") simp_all
  then show ?thesis
    using assms by (simp add: renderMovers_def Let_def)
qed

text \<open>
  Claim C5. For every filtered slice that is not empty, the movers list is the first 10
  entries of \<open>A @ B\<close>, where \<open>A\<close> holds exactly the records with a prior-year figure,
  each with the delta \<open>spendTotal - prevSpendTotal\<close>, in descending order of the delta,
  and \<open>B\<close> holds exactly the records without one, with no delta, in descending order
  of \<open>spendTotal\<close>. For the records \<open>{spend:100, prev:80}\<close>, \<open>{spend:50, prev:null}\<close>,
  \<open>{spend:40, prev:60}\<close> the order is spend 100 (delta +20), spend 40 (delta -20),
  spend 50 (no history).
\<close>

theorem movers_ranking:
  "(filtered \<noteq> [] \<longrightarrow>
      (\<exists>A B. renderMovers filtered = Movers (take 10 (A @ B))
         \<and> mset (map mv_row A) = mset (filter (\<lambda>rw. prev_spend_total_usd rw \<noteq> None) filtered)
         \<and> (\<forall>m \<in> set A. \<exists>p. prev_spend_total_usd (mv_row m) = Some p
                            \<and> mv_delta m = Some (spend_total_usd (mv_row m) - p))
         \<and> sorted_wrt (\<lambda>a b. the (mv_delta b) \<le> the (mv_delta a)) A
         \<and> mset (map mv_row B) = mset (filter (\<lambda>rw. prev_spend_total_usd rw = None) filtered)
         \<and> (\<forall>m \<in> set B. mv_delta m = None)
         \<and> sorted_wrt (\<lambda>a b. spend_total_usd (mv_row b) \<le> spend_total_usd (mv_row a)) B))
   \<and> renderMovers [drug ''A'' 100 (Some 80), drug ''B'' 50 None, drug ''C'' 40 (Some 60)]
       = Movers [\<lparr>mv_row = drug ''A'' 100 (Some 80), mv_delta = Some 20\<rparr>,
                 \<lparr>mv_row = drug ''C'' 40 (Some 60), mv_delta = Some (- 20)\<rparr>,
                 \<lparr>mv_row = drug ''B'' 50 None, mv_delta = None\<rparr>]"
proof (intro conjI impI)
  assume ne: "filtered \<noteq> []"
  show "\<exists>A B. renderMovers filtered = Movers (take 10 (A @ B))
         \<and> mset (map mv_row A) = mset (filter (\<lambda>rw. prev_spend_total_usd rw \<noteq> None) filtered)
         \<and> (\<forall>m \<in> set A. \<exists>p. prev_spend_total_usd (mv_row m) = Some p
                            \<and> mv_delta m = Some (spend_total_usd (mv_row m) - p))
         \<and> sorted_wrt (\<lambda>a b. the (mv_delta b) \<le> the (mv_delta a)) A
         \<and> mset (map mv_row B) = mset (filter (\<lambda>rw. prev_spend_total_usd rw = None) filtered)
         \<and> (\<forall>m \<in> set B. mv_delta m = None)
         \<and> sorted_wrt (\<lambda>a b. spend_total_usd (mv_row b) \<le> spend_total_usd (mv_row a)) B"
    using renderMovers_nonempty [OF ne] withPrev_rows [of filtered] withPrev_delta [of _ filtered]
      withPrev_sorted [of filtered] withoutPrev_rows [of filtered]
      withoutPrev_delta [of _ filtered] withoutPrev_sorted [of filtered]
    by blast
next
  show "renderMovers [drug ''A'' 100 (Some 80), drug ''B'' 50 None, drug ''C'' 40 (Some 60)]
       = Movers [\<lparr>mv_row = drug ''A'' 100 (Some 80), mv_delta = Some 20\<rparr>,
                 \<lparr>mv_row = drug ''C'' 40 (Some 60), mv_delta = Some (- 20)\<rparr>,
                 \<lparr>mv_row = drug ''B'' 50 None, mv_delta = None\<rparr>]"
    using example_movers by (simp add: example_rows_def)
qed

theorem movers_ranking_witness:
  "example_rows \<noteq> []
   \<and> (\<exists>A B. renderMovers example_rows = Movers (take 10 (A @ B))
         \<and> mset (map mv_row A)
             = mset (filter (\<lambda>rw. prev_spend_total_usd rw \<noteq> None) example_rows)
         \<and> (\<forall>m \<in> set A. \<exists>p. prev_spend_total_usd (mv_row m) = Some p
                            \<and> mv_delta m = Some (spend_total_usd (mv_row m) - p))
         \<and> sorted_wrt (\<lambda>a b. the (mv_delta b) \<le> the (mv_delta a)) A
         \<and> mset (map mv_row B)
             = mset (filter (\<lambda>rw. prev_spend_total_usd rw = None) example_rows)
         \<and> (\<forall>m \<in> set B. mv_delta m = None)
         \<and> sorted_wrt (\<lambda>a b. spend_total_usd (mv_row b) \<le> spend_total_usd (mv_row a)) B)"
proof -
  have ne: "example_rows \<noteq> []" by (simp add: example_rows_def)
  from movers_ranking [of example_rows] ne show ?thesis by blast
qed


section \<open>Uploads\<close>

declare digitsOf.simps [simp del] collapseSpaces.simps [simp del] stripCounters.simps [simp del]

lemmas string_eval =
  trim_def toLowerCase_def lowerChar_def isSpace_def isDigit_def collapseSpaces.simps
  stripCounters.simps sanitize_def medicareMatch_def yearMatch_def skipSeparator_def
  startsWith_def normalizeDataFileName_def Let_def


lemma normalize_spaced: "normalizeDataFileName ''Medicare_Drugs_2022 (1).json'' = None"
  by (simp add: string_eval)





















lemma updateDataStatus_registry [simp]:
  "dataByYear (updateDataStatus m st) = dataByYear st"
  "dataSources (updateDataStatus m st) = dataSources st"
  "nhe (updateDataStatus m st) = nhe st"
  "nheSource (updateDataStatus m st) = nheSource st"
  "storage (updateDataStatus m st) = storage st"
  "years (updateDataStatus m st) = years st"
  "selected (updateDataStatus m st) = selected st"
  by (simp_all add: updateDataStatus_def Let_def)



subsection \<open>The example batch\<close>














lemma trim_plain:
  assumes "s \<noteq> []" and "\<not> isSpace (hd s)" and "\<not> isSpace (last s)"
  shows "trim s = s"
proof -
  from assms obtain c cs where s: "s = c # cs" by (cases s) auto
  then have a: "dropWhile isSpace s = s" using assms(2) by simp
  from assms(1) obtain ys y where e: "s = ys @ [y]" by (cases s rule: rev_exhaust) auto
  then have "dropWhile isSpace (rev s) = rev s" using assms(3) by simp
  then show ?thesis by (simp add: trim_def a)
qed





section \<open>Clearing the saved data\<close>

lemma no_stored_years:
  assumes "\<not> hasStored st"
  shows "getStoredMedicareYears st = []" and "nheSource st \<noteq> Some FromStorage"
    and "\<forall>e \<in> set (dataSources st). snd e \<noteq> FromStorage"
proof -
  show a: "getStoredMedicareYears st = []" and "nheSource st \<noteq> Some FromStorage"
    using assms by (simp_all add: hasStored_def)
  from a have "length (getStoredMedicareYears st) = 0"
    by simp
  then have "filter (\<lambda>(y, src). src = FromStorage) (dataSources st) = []"
    by (simp add: getStoredMedicareYears_def sortYearsDescending_def)
  then show "\<forall>e \<in> set (dataSources st). snd e \<noteq> FromStorage"
    by (auto simp: filter_empty_conv)
qed

lemma no_session:
  assumes "\<not> hasSessionUploads st"
  shows "nheSource st \<noteq> Some FromSession"
    and "\<forall>e \<in> set (dataSources st). snd e \<noteq> FromSession"
proof -
  show "nheSource st \<noteq> Some FromSession"
    using assms by (simp add: hasSessionUploads_def)
  have "FromSession \<notin> snd ` set (dataSources st)"
    using assms by (simp add: hasSessionUploads_def list_ex_iff)
  then show "\<forall>e \<in> set (dataSources st). snd e \<noteq> FromSession"
    by (metis imageI)
qed

lemma nothing_stored_only_fetched:
  assumes "\<not> hasStored st" and "\<not> hasSessionUploads st"
  shows "only_fetched st"
  unfolding only_fetched_def
proof
  fix e assume "e \<in> set (dataSources st)"
  then have "snd e \<noteq> FromStorage" "snd e \<noteq> FromSession"
    using no_stored_years(3) [OF assms(1)] no_session(2) [OF assms(2)] by simp_all
  then show "snd e = FromFetch" by (cases "snd e") simp_all
qed

lemma only_fetched_stored:
  assumes "only_fetched st"
  shows "getStoredMedicareYears st = []"
proof -
  have "filter (\<lambda>(y, src). src = FromStorage) (dataSources st) = []"
    using assms by (auto simp: only_fetched_def filter_empty_conv)
  then show ?thesis
    by (simp add: getStoredMedicareYears_def sortYearsDescending_def)
qed

lemma summary_nothing_stored:
  assumes "only_fetched st" and "nheSource st \<noteq> Some FromStorage"
  shows "statusSummary st
         = (if supported (storage st) then ''No data saved locally yet.'' else unsupportedText)"
  using assms only_fetched_stored [OF assms(1)]
  by (simp add: statusSummary_def unsupportedText_def Let_def split: option.splits)

lemma nothing_to_clear_text:
  assumes "only_fetched st" and "nheSource st \<noteq> Some FromStorage"
  shows "dataStatus (updateDataStatus ''No saved data to clear.'' st)
         = ''No saved data to clear. ''
           @ (if supported (storage st) then ''No data saved locally yet.'' else unsupportedText)"
proof -
  have t1: "trim ''No saved data to clear.'' = ''No saved data to clear.''"
    by (rule trim_plain) (simp_all add: isSpace_def)
  have t2: "trim (''No saved data to clear.'' @ '' '' @ ''No data saved locally yet.'')
            = ''No saved data to clear.'' @ '' '' @ ''No data saved locally yet.''"
    by (rule trim_plain) (simp_all add: isSpace_def)
  have t3: "trim (''No saved data to clear.'' @ '' '' @ unsupportedText)
            = ''No saved data to clear.'' @ '' '' @ unsupportedText"
    by (rule trim_plain) (simp_all add: isSpace_def unsupportedText_def)
  show ?thesis
    unfolding updateDataStatus_def Let_def summary_nothing_stored [OF assms]
    using t1 t2 t3 by simp
qed


lemma forgetEntry_fetch: "snd e = FromFetch \<Longrightarrow> forgetEntry st e = st"
  by (simp add: forgetEntry_def)

lemma foldl_forget_fetched:
  "\<forall>e \<in> set es. snd e = FromFetch \<Longrightarrow> foldl forgetEntry st es = st"
  by (induction es arbitrary: st) (simp_all add: forgetEntry_fetch)

lemma update_entries: "e \<in> set (AList.update k v al) \<Longrightarrow> e = (k, v) \<or> e \<in> set al"
  by (induction al) (auto split: if_splits)

lemma kept_refl: "only_fetched st \<Longrightarrow> kept st st"
  by (simp add: kept_def)

lemma discoverStep_kept:
  assumes "kept st0 (fst acc)"
  shows "kept st0 (fst (discoverStep w acc y))"
proof (cases "map_of (dataByYear (fst acc)) y \<noteq> None")
  case True
  then show ?thesis using assms by (simp add: discoverStep_def Let_def)
next
  case False
  then have none: "map_of (dataByYear (fst acc)) y = None" by simp
  show ?thesis
  proof (cases "\<exists>data. remoteData w y = Some (JArray data)")
    case False
    then have "fst (discoverStep w acc y) = fst acc"
      using none by (auto simp: discoverStep_def Let_def split: option.splits json.splits)
    then show ?thesis using assms by simp
  next
    case True
    then obtain data where d: "remoteData w y = Some (JArray data)" by blast
    have eq: "fst (discoverStep w acc y)
              = (fst acc)\<lparr>dataByYear := AList.update y data (dataByYear (fst acc)),
                         dataSources := AList.update y FromFetch (dataSources (fst acc))\<rparr>"
      using none d by (simp add: discoverStep_def Let_def)
    have a: "only_fetched (fst (discoverStep w acc y))"
      unfolding eq only_fetched_def
    proof
      fix e
      assume "e \<in> set (dataSources ((fst acc)\<lparr>dataByYear := AList.update y data (dataByYear (fst acc)),
                         dataSources := AList.update y FromFetch (dataSources (fst acc))\<rparr>))"
      then have "e = (y, FromFetch) \<or> e \<in> set (dataSources (fst acc))"
        using update_entries [of e y FromFetch "dataSources (fst acc)"] by simp
      then show "snd e = FromFetch"
        using assms by (auto simp: kept_def only_fetched_def)
    qed
    have b: "map_of (dataByYear (fst (discoverStep w acc y))) z = Some v"
      if "map_of (dataByYear st0) z = Some v" for z v
    proof -
      from that assms have old: "map_of (dataByYear (fst acc)) z = Some v"
        by (simp add: kept_def)
      with none have "z \<noteq> y" by auto
      then show ?thesis
        unfolding eq using old by (simp add: update_conv')
    qed
    show ?thesis
      unfolding kept_def using a b assms by (simp add: eq kept_def)
  qed
qed

lemma foldl_discover_kept:
  "kept st0 (fst acc) \<Longrightarrow> kept st0 (fst (foldl (discoverStep w) acc ys))"
  by (induction ys arbitrary: acc) (simp_all add: discoverStep_kept)

lemma discoverYears_kept:
  "kept st0 st \<Longrightarrow> kept st0 (fst (discoverYears w st))"
  using foldl_discover_kept [of st0 "(st, remdups (map fst (dataByYear st)))" w]
  by (simp add: discoverYears_def Let_def)

lemma kept_fields:
  assumes "kept st0 st" and "dataByYear st' = dataByYear st" and "dataSources st' = dataSources st"
    and "nhe st' = nhe st" and "nheSource st' = nheSource st" and "storage st' = storage st"
  shows "kept st0 st'"
  using assms by (simp add: kept_def only_fetched_def)

lemma refreshData_kept:
  assumes "kept st0 st"
  shows "kept st0 (fst (refreshData w True st))"
proof -
  note k = discoverYears_kept [OF assms, of w]
  show ?thesis
    by (rule kept_fields [OF k])
      (simp_all add: refreshData_def Let_def split: list.splits option.splits)
qed

lemma storage_clear_fields:
  "supported (fst (storage_clear db)) = supported db"
  "clearCalls (fst (storage_clear db)) = clearCalls db + 1"
  by (simp_all add: storage_clear_def)

lemma forget_nothing_stored:
  assumes "\<not> hasStored st" and "\<not> hasSessionUploads st" and "nhe st \<noteq> None"
  shows "dataStatus (forgetStoredData w st)
         = ''No saved data to clear. ''
           @ (if supported (storage st) then ''No data saved locally yet.'' else unsupportedText)"
    and "clearCalls (storage (forgetStoredData w st))
         = clearCalls (storage st) + (if supported (storage st) then 1 else 0)"
    and "nhe (forgetStoredData w st) = nhe st"
    and "map_of (dataByYear st) y = Some d
         \<Longrightarrow> map_of (dataByYear (forgetStoredData w st)) y = Some d"
proof -
  define st1 where
    "st1 = (if supported (storage st) then st\<lparr>storage := fst (storage_clear (storage st))\<rparr>
            else st)"
  have f: "only_fetched st"
    using assms(1,2) by (rule nothing_stored_only_fetched)
  have src: "nheSource st \<noteq> Some FromStorage" "nheSource st \<noteq> Some FromSession"
    using no_stored_years(2) [OF assms(1)] no_session(1) [OF assms(2)] by simp_all
  have f1: "only_fetched st1" and s1: "nheSource st1 = nheSource st" and n1: "nhe st1 = nhe st"
    and d1: "dataByYear st1 = dataByYear st" and ds1: "dataSources st1 = dataSources st"
    using f by (simp_all add: st1_def only_fetched_def)
  have st2: "foldl forgetEntry st1 (dataSources st1) = st1"
    using f1 by (intro foldl_forget_fetched) (simp add: only_fetched_def)
  define st4 where "st4 = fst (refreshData w True st1)"
  have k: "kept st1 st4"
    unfolding st4_def using f1 by (intro refreshData_kept kept_refl)
  have n4: "nhe st4 \<noteq> None"
    using k assms(3) n1 by (simp add: kept_def)
  have run: "forgetStoredData w st = updateDataStatus ''No saved data to clear.'' st4"
    unfolding forgetStoredData_def Let_def st1_def [symmetric] st2
    using assms(1,2) src s1 n4 by (simp add: st4_def loadNhe_def)
  have f4: "only_fetched st4" and s4: "nheSource st4 \<noteq> Some FromStorage"
    and g4: "storage st4 = storage st1"
    using k src s1 by (simp_all add: kept_def)
  have sup: "supported (storage st1) = supported (storage st)"
    by (simp add: st1_def storage_clear_fields)
  show "dataStatus (forgetStoredData w st)
         = ''No saved data to clear. ''
           @ (if supported (storage st) then ''No data saved locally yet.'' else unsupportedText)"
    unfolding run nothing_to_clear_text [OF f4 s4] g4 sup ..
  show "clearCalls (storage (forgetStoredData w st))
         = clearCalls (storage st) + (if supported (storage st) then 1 else 0)"
    unfolding run by (simp add: updateDataStatus_def Let_def g4 st1_def storage_clear_fields)
  show "nhe (forgetStoredData w st) = nhe st"
    unfolding run using k n1 by (simp add: updateDataStatus_def Let_def kept_def)
  show "map_of (dataByYear st) y = Some d
         \<Longrightarrow> map_of (dataByYear (forgetStoredData w st)) y = Some d"
    unfolding run using k d1 by (simp add: updateDataStatus_def Let_def kept_def)
qed

lemma click_nothing_loaded:
  assumes "\<not> hasStored st" and "\<not> hasSessionUploads st" and "nhe st = None"
  shows "clearDataClick w st
         = st\<lparr>dataStatus := ''No saved data to clear. ''
              @ (if supported (storage st) then ''No data saved locally yet.''
                 else unsupportedText)\<rparr>"
proof -
  have f: "only_fetched st"
    using assms(1,2) by (rule nothing_stored_only_fetched)
  have src: "nheSource st \<noteq> Some FromStorage"
    using no_stored_years(2) [OF assms(1)] .
  have "clearDataClick w st = updateDataStatus ''No saved data to clear.'' st"
    using assms by (simp add: clearDataClick_def)
  moreover have "updateDataStatus ''No saved data to clear.'' st
       = st\<lparr>dataStatus := dataStatus (updateDataStatus ''No saved data to clear.'' st)\<rparr>"
    by (simp add: updateDataStatus_def Let_def)
  ultimately show ?thesis
    by (simp only: nothing_to_clear_text [OF f src])
qed

lemma click_fetched_context:
  assumes "\<not> hasStored st" and "\<not> hasSessionUploads st" and "nhe st \<noteq> None"
  shows "clearDataClick w st = forgetStoredData w st"
  using assms by (auto simp: clearDataClick_def)


lemma started_nothing:
  "\<not> hasStored started_app" "\<not> hasSessionUploads started_app" "nhe started_app = None"
  "supported (storage started_app)"
  by (simp_all add: hasStored_def hasSessionUploads_def getStoredMedicareYears_def
      sortYearsDescending_def started_app_def empty_store_def)

lemma fetched_nothing:
  "\<not> hasStored fetched_context_app" "\<not> hasSessionUploads fetched_context_app"
  "nhe fetched_context_app \<noteq> None" "supported (storage fetched_context_app)"
  "dataSources fetched_context_app = []" "entries (storage fetched_context_app) = []"
  "clearCalls (storage fetched_context_app) = 0"
  by (simp_all add: hasStored_def hasSessionUploads_def getStoredMedicareYears_def
      sortYearsDescending_def fetched_context_app_def started_app_def empty_store_def)

text \<open>
  Claim C7, as amended. When no dataset or context entry is stored (neither persisted
  nor session-only) and no national context is loaded, the clear-data operation only
  sets the status to the "nothing to clear" message: the store, the registry and the
  provenance map stay as they are. When nothing is stored but a national context
  fetched from the server is loaded, the status is the same message, no dataset and no
  context is removed from the registry, and \<^verbatim>\<open>storage.clear()\<close> is called once if the
  browser supports the store.
\<close>

theorem clear_when_nothing_stored:
  "(\<not> hasStored st \<and> \<not> hasSessionUploads st \<and> nhe st = None \<longrightarrow>
      clearDataClick w st
        = st\<lparr>dataStatus := ''No saved data to clear. ''
             @ (if supported (storage st) then ''No data saved locally yet.''
                else unsupportedText)\<rparr>
      \<and> storage (clearDataClick w st) = storage st
      \<and> dataByYear (clearDataClick w st) = dataByYear st
      \<and> dataSources (clearDataClick w st) = dataSources st)
   \<and> (\<not> hasStored st \<and> \<not> hasSessionUploads st \<and> nhe st \<noteq> None \<longrightarrow>
      dataStatus (clearDataClick w st)
        = ''No saved data to clear. ''
          @ (if supported (storage st) then ''No data saved locally yet.'' else unsupportedText)
      \<and> clearCalls (storage (clearDataClick w st))
          = clearCalls (storage st) + (if supported (storage st) then 1 else 0)
      \<and> nhe (clearDataClick w st) = nhe st
      \<and> (\<forall>y d. map_of (dataByYear st) y = Some d
                 \<longrightarrow> map_of (dataByYear (clearDataClick w st)) y = Some d))"
proof (intro conjI impI)
  assume a: "\<not> hasStored st \<and> \<not> hasSessionUploads st \<and> nhe st = None"
  then have c: "clearDataClick w st
        = st\<lparr>dataStatus := ''No saved data to clear. ''
             @ (if supported (storage st) then ''No data saved locally yet.''
                else unsupportedText)\<rparr>"
    by (intro click_nothing_loaded) simp_all
  show "clearDataClick w st
        = st\<lparr>dataStatus := ''No saved data to clear. ''
             @ (if supported (storage st) then ''No data saved locally yet.''
                else unsupportedText)\<rparr>"
    by (rule c)
  show "storage (clearDataClick w st) = storage st"
    and "dataByYear (clearDataClick w st) = dataByYear st"
    and "dataSources (clearDataClick w st) = dataSources st"
    unfolding c by simp_all
next
  assume a: "\<not> hasStored st \<and> \<not> hasSessionUploads st \<and> nhe st \<noteq> None"
  then have h: "\<not> hasStored st" "\<not> hasSessionUploads st" "nhe st \<noteq> None"
    by simp_all
  note c = click_fetched_context [OF h, of w]
  show "dataStatus (clearDataClick w st)
        = ''No saved data to clear. ''
          @ (if supported (storage st) then ''No data saved locally yet.'' else unsupportedText)"
    unfolding c by (rule forget_nothing_stored(1) [OF h])
  show "clearCalls (storage (clearDataClick w st))
          = clearCalls (storage st) + (if supported (storage st) then 1 else 0)"
    unfolding c by (rule forget_nothing_stored(2) [OF h])
  show "nhe (clearDataClick w st) = nhe st"
    unfolding c by (rule forget_nothing_stored(3) [OF h])
  show "\<forall>y d. map_of (dataByYear st) y = Some d
                 \<longrightarrow> map_of (dataByYear (clearDataClick w st)) y = Some d"
    unfolding c using forget_nothing_stored(4) [OF h] by blast
qed

theorem clear_when_nothing_stored_witness:
  "(\<not> hasStored started_app \<and> \<not> hasSessionUploads started_app \<and> nhe started_app = None)
   \<and> clearDataClick sample_world started_app
       = started_app\<lparr>dataStatus := ''No saved data to clear. No data saved locally yet.''\<rparr>
   \<and> (\<not> hasStored fetched_context_app \<and> \<not> hasSessionUploads fetched_context_app
        \<and> nhe fetched_context_app \<noteq> None)
   \<and> nhe (clearDataClick sample_world fetched_context_app) = nhe fetched_context_app"
  using clear_when_nothing_stored [of started_app sample_world]
    clear_when_nothing_stored [of fetched_context_app sample_world]
    started_nothing fetched_nothing
  by simp

text \<open>
  With nothing stored and a fetched national context loaded, the click reaches
  \<^verbatim>\<open>forgetStoredData\<close>, which clears the store.
\<close>

theorem clear_fetched_context_counterexample:
  "\<not> hasStored fetched_context_app \<and> \<not> hasSessionUploads fetched_context_app
   \<and> dataSources fetched_context_app = [] \<and> entries (storage fetched_context_app) = []
   \<and> clearCalls (storage fetched_context_app) = 0
   \<and> dataStatus (clearDataClick sample_world fetched_context_app)
       = ''No saved data to clear. No data saved locally yet.''
   \<and> clearCalls (storage (clearDataClick sample_world fetched_context_app)) = 1"
  using fetched_nothing
    click_fetched_context [OF fetched_nothing(1-3), of sample_world]
    forget_nothing_stored(1,2) [OF fetched_nothing(1-3), of sample_world]
  by simp


end
